theory Spec2Isabelle
  imports Complex_Main "HOL-Library.AList" "HOL-Library.Sublist" "HOL-Library.Char_ord"
    "HOL-Library.List_Lexorder" "HOL-Library.Product_Lexorder"
begin

section \<open>JavaScript values\<close>

text \<open>
  The server is an Express application on top of a Firestore database; the model follows
  the deployment with the event stream (\<^verbatim>\<open>snapshotFor\<close>, \<^verbatim>\<open>broadcast\<close>, the routes
  \<^verbatim>\<open>/events\<close>, \<^verbatim>\<open>/pay\<close>, \<^verbatim>\<open>/callback\<close> and \<^verbatim>\<open>/update-status\<close>). Each handler is a
  function from the state before the request to the state after it, the response and
  the events pushed to the open streams; handlers run one after the other, and the store
  is assumed to answer (a failure of Firestore itself is not modelled).

  Request bodies are parsed JSON, so a payload is a dynamically typed value. A
  JavaScript number is \<open>NaN\<close>, an infinity or a finite number; finite numbers are
  rationals and arithmetic on them is exact (the rounding of IEEE doubles is not part of
  the model; the two agree on the integers that amounts in the minor currency unit
  are). JSON arrays are not part of the payload model.
\<close>

datatype jsnum = NaN | PInf | NInf | Fin rat

datatype jsval = JUndef | JNull | JBool bool | JNum jsnum | JStr string
  | JObj "(string \<times> jsval) list"

datatype js_error = TypeError

text \<open>\<^verbatim>\<open>a + b\<close> on numbers.\<close>

fun num_add :: "jsnum \<Rightarrow> jsnum \<Rightarrow> jsnum" where
  "num_add NaN _ = NaN"
| "num_add _ NaN = NaN"
| "num_add PInf NInf = NaN"
| "num_add NInf PInf = NaN"
| "num_add PInf _ = PInf"
| "num_add _ PInf = PInf"
| "num_add NInf _ = NInf"
| "num_add _ NInf = NInf"
| "num_add (Fin a) (Fin b) = Fin (a + b)"

text \<open>\<^verbatim>\<open>a < b\<close> and \<^verbatim>\<open>a <= b\<close> on numbers: every comparison with \<open>NaN\<close> is false.\<close>

fun num_less :: "jsnum \<Rightarrow> jsnum \<Rightarrow> bool" where
  "num_less NaN _ = False"
| "num_less _ NaN = False"
| "num_less _ NInf = False"
| "num_less PInf _ = False"
| "num_less NInf _ = True"
| "num_less _ PInf = True"
| "num_less (Fin a) (Fin b) = (a < b)"

fun num_le :: "jsnum \<Rightarrow> jsnum \<Rightarrow> bool" where
  "num_le NaN _ = False"
| "num_le _ NaN = False"
| "num_le NInf _ = True"
| "num_le _ PInf = True"
| "num_le _ NInf = False"
| "num_le PInf _ = False"
| "num_le (Fin a) (Fin b) = (a \<le> b)"

definition isNaN :: "jsnum \<Rightarrow> bool" where
  "isNaN n = (n = NaN)"

text \<open>\<^verbatim>\<open>Number.isFinite\<close> on a number.\<close>

fun isFinite :: "jsnum \<Rightarrow> bool" where
  "isFinite (Fin _) = True"
| "isFinite _ = False"

text \<open>\<^verbatim>\<open>Math.round\<close>: the nearest integer, halves upwards.\<close>

fun Math_round :: "jsnum \<Rightarrow> jsnum" where
  "Math_round (Fin a) = Fin (of_int \<lfloor>a + 1 / 2\<rfloor>)"
| "Math_round n = n"

text \<open>Truthiness: \<open>0\<close>, \<open>NaN\<close>, the empty string, \<open>null\<close>, \<open>undefined\<close> and \<open>false\<close> are falsy.\<close>

definition truthy_num :: "jsnum \<Rightarrow> bool" where
  "truthy_num n = (n \<noteq> NaN \<and> n \<noteq> Fin 0)"

fun truthy :: "jsval \<Rightarrow> bool" where
  "truthy JUndef = False"
| "truthy JNull = False"
| "truthy (JBool b) = b"
| "truthy (JNum n) = truthy_num n"
| "truthy (JStr s) = (s \<noteq> [])"
| "truthy (JObj _) = True"

text \<open>\<^verbatim>\<open>a || b\<close>: the first operand when it is truthy, otherwise the second.\<close>

definition js_or :: "jsval \<Rightarrow> jsval \<Rightarrow> jsval" where
  "js_or a b = (if truthy a then a else b)"

definition num_or :: "jsnum option \<Rightarrow> jsnum \<Rightarrow> jsnum" where
  "num_or a b = (case a of Some n \<Rightarrow> if truthy_num n then n else b | None \<Rightarrow> b)"

definition str_or :: "string option \<Rightarrow> string \<Rightarrow> string" where
  "str_or a b = (case a of Some s \<Rightarrow> if s \<noteq> [] then s else b | None \<Rightarrow> b)"

text \<open>
  \<^verbatim>\<open>v?.k\<close>: the property \<open>k\<close> of an object, \<open>undefined\<close> when the object has no such
  key and when \<open>v\<close> is \<open>null\<close>, \<open>undefined\<close> or a primitive (none of the names the server
  reads is a property of a string, number or boolean). The keys of a parsed JSON object
  are distinct.
\<close>

fun get :: "jsval \<Rightarrow> string \<Rightarrow> jsval" where
  "get (JObj kvs) k = (case map_of kvs k of Some v \<Rightarrow> v | None \<Rightarrow> JUndef)"
| "get _ k = JUndef"

subsection \<open>Strings\<close>

definition to_lower_char :: "char \<Rightarrow> char" where
  "to_lower_char c =
     (case map_of (zip ''ABCDEFGHIJKLMNOPQRSTUVWXYZ'' ''abcdefghijklmnopqrstuvwxyz'') c of
        Some d \<Rightarrow> d | None \<Rightarrow> c)"

definition to_upper_char :: "char \<Rightarrow> char" where
  "to_upper_char c =
     (case map_of (zip ''abcdefghijklmnopqrstuvwxyz'' ''ABCDEFGHIJKLMNOPQRSTUVWXYZ'') c of
        Some d \<Rightarrow> d | None \<Rightarrow> c)"

text \<open>\<^verbatim>\<open>toLowerCase\<close> and \<^verbatim>\<open>toUpperCase\<close>, on the ASCII letters.\<close>

definition toLowerCase :: "string \<Rightarrow> string" where
  "toLowerCase s = map to_lower_char s"

definition toUpperCase :: "string \<Rightarrow> string" where
  "toUpperCase s = map to_upper_char s"

text \<open>\<^verbatim>\<open>s.includes(p)\<close>: \<open>p\<close> occurs in \<open>s\<close> as a contiguous substring.\<close>

fun str_includes :: "string \<Rightarrow> string \<Rightarrow> bool" where
  "str_includes [] p = (p = [])"
| "str_includes (c # cs) p = (prefix p (c # cs) \<or> str_includes cs p)"

definition is_digit :: "char \<Rightarrow> bool" where
  "is_digit c = (c \<in> set ''0123456789'')"

definition digit_val :: "char \<Rightarrow> nat" where
  "digit_val c =
     (case map_of (zip ''0123456789'' [0, 1, 2, 3, 4, 5, 6, 7, 8, 9]) c of
        Some d \<Rightarrow> d | None \<Rightarrow> 0)"

definition digits_val :: "string \<Rightarrow> nat" where
  "digits_val ds = foldl (\<lambda>a c. 10 * a + digit_val c) 0 ds"

definition is_space :: "char \<Rightarrow> bool" where
  "is_space c = (c \<in> set [CHR '' '', CHR 0x09, CHR 0x0A, CHR 0x0B, CHR 0x0C, CHR 0x0D])"

text \<open>
  The exponent part of a decimal literal (\<open>e\<close> or \<open>E\<close>, a sign, at least one digit) and
  what follows it; without a complete exponent nothing is consumed.
\<close>

definition read_exponent :: "string \<Rightarrow> int \<times> string" where
  "read_exponent r =
     (case r of
        [] \<Rightarrow> (0, r)
      | c # r1 \<Rightarrow>
          if c = CHR ''e'' \<or> c = CHR ''E'' then
            (let neg = (r1 \<noteq> [] \<and> hd r1 = CHR ''-'');
                 r2 = (if r1 \<noteq> [] \<and> (hd r1 = CHR ''-'' \<or> hd r1 = CHR ''+'') then tl r1 else r1);
                 ds = takeWhile is_digit r2
             in if ds = [] then (0, r)
                else (if neg then - int (digits_val ds) else int (digits_val ds),
                      dropWhile is_digit r2))
          else (0, r))"

text \<open>
  The longest prefix that is a decimal literal (sign, \<open>Infinity\<close> or digits with an
  optional fraction and exponent), with its exact value and the rest of the string.
\<close>

definition read_decimal :: "string \<Rightarrow> (jsnum \<times> string) option" where
  "read_decimal s =
     (let neg = (s \<noteq> [] \<and> hd s = CHR ''-'');
          s2 = (if s \<noteq> [] \<and> (hd s = CHR ''-'' \<or> hd s = CHR ''+'') then tl s else s)
      in if prefix ''Infinity'' s2 then Some (if neg then NInf else PInf, drop 8 s2)
         else
           (let ip = takeWhile is_digit s2;
                r1 = dropWhile is_digit s2;
                dot = (r1 \<noteq> [] \<and> hd r1 = CHR ''.'');
                fp = (if dot then takeWhile is_digit (tl r1) else []);
                r2 = (if dot then dropWhile is_digit (tl r1) else r1);
                ex = fst (read_exponent r2);
                m = rat_of_nat (digits_val (ip @ fp)) / 10 ^ length fp;
                v = (if ex < 0 then m / 10 ^ nat (- ex) else m * 10 ^ nat ex)
            in if ip = [] \<and> fp = [] then None
               else Some (Fin (if neg then - v else v), snd (read_exponent r2))))"

text \<open>
  \<^verbatim>\<open>parseFloat\<close> on a string: leading white space is skipped and the longest decimal
  prefix is read; \<open>NaN\<close> when there is none.
\<close>

definition parseFloat_str :: "string \<Rightarrow> jsnum" where
  "parseFloat_str s =
     (case read_decimal (dropWhile is_space s) of Some (v, r) \<Rightarrow> v | None \<Rightarrow> NaN)"

text \<open>
  \<^verbatim>\<open>Number\<close> on a string: white space is trimmed on both sides; the empty string is 0;
  otherwise the whole string must be a decimal literal or a binary, octal or
  hexadecimal integer literal.
\<close>

definition radix_val :: "nat \<Rightarrow> string \<Rightarrow> jsnum" where
  "radix_val b ds =
     (let val = (\<lambda>c. case map_of (zip ''0123456789abcdef'' [0 ..< 16]) (to_lower_char c) of
                         Some d \<Rightarrow> d | None \<Rightarrow> 16)
      in if ds \<noteq> [] \<and> list_all (\<lambda>c. val c < b) ds
         then Fin (rat_of_nat (foldl (\<lambda>a c. b * a + val c) 0 ds)) else NaN)"

definition read_radix :: "string \<Rightarrow> jsnum" where
  "read_radix t =
     (case t of
        c0 # c1 # ds \<Rightarrow>
          if c0 \<noteq> CHR ''0'' then NaN
          else if c1 = CHR ''x'' \<or> c1 = CHR ''X'' then radix_val 16 ds
          else if c1 = CHR ''o'' \<or> c1 = CHR ''O'' then radix_val 8 ds
          else if c1 = CHR ''b'' \<or> c1 = CHR ''B'' then radix_val 2 ds
          else NaN
      | _ \<Rightarrow> NaN)"

definition Number_str :: "string \<Rightarrow> jsnum" where
  "Number_str s =
     (let t = rev (dropWhile is_space (rev (dropWhile is_space s)))
      in if t = [] then Fin 0
         else (case read_decimal t of
                 Some (v, r) \<Rightarrow> if r = [] then v else read_radix t
               | None \<Rightarrow> read_radix t))"

text \<open>\<^verbatim>\<open>Number(v)\<close>, the conversion that \<^verbatim>\<open>v < 1\<close> and \<^verbatim>\<open>Math.round(v)\<close> apply.\<close>

fun to_number :: "jsval \<Rightarrow> jsnum" where
  "to_number JUndef = NaN"
| "to_number JNull = Fin 0"
| "to_number (JBool b) = Fin (if b then 1 else 0)"
| "to_number (JNum n) = n"
| "to_number (JStr s) = Number_str s"
| "to_number (JObj _) = NaN"

text \<open>
  \<^verbatim>\<open>parseFloat(v)\<close>: the argument is converted to a string first. A number reads back as
  itself; \<open>true\<close>, \<open>null\<close>, \<open>undefined\<close> and \<open>[object Object]\<close> give \<open>NaN\<close>.
\<close>

fun parseFloat :: "jsval \<Rightarrow> jsnum" where
  "parseFloat (JNum n) = n"
| "parseFloat (JStr s) = parseFloat_str s"
| "parseFloat _ = NaN"

text \<open>
  \<^verbatim>\<open>status && String(status).toLowerCase() === "completed"\<close>. \<open>String\<close> of a number, a
  boolean or a plain object is a numeral, \<open>NaN\<close>, \<open>Infinity\<close>, \<open>true\<close> or
  \<open>[object Object]\<close>, none of which is the word.
\<close>

fun js_String_lower_is :: "jsval \<Rightarrow> string \<Rightarrow> bool" where
  "js_String_lower_is (JStr s) w = (toLowerCase s = w)"
| "js_String_lower_is _ w = False"

subsection \<open>formatPhone\<close>

text \<open>
  \<^verbatim>\<open>(phone || '').replace(/\D/g, '')\<close> keeps the digits; a truthy value that is not a
  string has no \<^verbatim>\<open>replace\<close> method and the call raises. The three accepted shapes are
  normalised to the form with the country code 254; anything else is \<^verbatim>\<open>null\<close>.
\<close>

definition startsWith :: "string \<Rightarrow> string \<Rightarrow> bool" where
  "startsWith s p = prefix p s"

definition format_digits :: "string \<Rightarrow> string option" where
  "format_digits phone =
     (let digits = filter is_digit phone
      in if length digits = 9 \<and> startsWith digits ''7'' then Some (''254'' @ digits)
         else if length digits = 10 \<and> startsWith digits ''07'' then Some (''254'' @ drop 1 digits)
         else if length digits = 12 \<and> startsWith digits ''254'' then Some digits
         else None)"

fun formatPhone :: "jsval \<Rightarrow> js_error + string option" where
  "formatPhone (JStr s) = Inr (format_digits s)"
| "formatPhone v = (if truthy v then Inl TypeError else Inr (format_digits []))"

section \<open>The document store\<close>

text \<open>
  Two Firestore collections: \<^verbatim>\<open>transactions\<close>, keyed by reference, and \<^verbatim>\<open>users\<close>, keyed
  by the normalised phone number. A document is a set of fields, any of which may be
  absent (\<open>None\<close>); each field has the type of the values the server writes to it.
  Time stamps are server times. A collection is an association list from document ids
  to documents, so that a query can enumerate it.
\<close>

record txn_doc =
  t_phone :: "string option"
  t_amount :: "jsnum option"
  t_status :: "string option"
  t_reference :: "string option"
  t_createdAt :: "nat option"
  t_updatedAt :: "nat option"
  t_callback :: "jsval option"
  t_swiftwallet :: "jsval option"
  t_error :: "jsval option"

record user_doc =
  u_phone :: "string option"
  u_balance :: "jsnum option"
  u_updatedAt :: "nat option"

text \<open>One live connection of the event stream: the response object and its heartbeat timer.\<close>

record sse_entry =
  res :: nat
  hb :: nat

text \<open>
  The state of the server and of its collaborators: the two collections, whether the
  composite index of the history query exists, the number of reads issued to the store,
  the registry \<^verbatim>\<open>sseClients\<close>, the interval timers that are running, the next timer
  handle, and the connections on which a write raises.
\<close>

record state =
  transactions :: "(string \<times> txn_doc) list"
  users :: "(string \<times> user_doc) list"
  index_ready :: bool
  reads :: nat
  sseClients :: "string \<Rightarrow> sse_entry list option"
  timers :: "nat set"
  next_timer :: nat
  dead :: "nat set"

definition empty_txn :: txn_doc where
  "empty_txn = \<lparr>t_phone = None, t_amount = None, t_status = None, t_reference = None,
     t_createdAt = None, t_updatedAt = None, t_callback = None, t_swiftwallet = None,
     t_error = None\<rparr>"

definition empty_user :: user_doc where
  "empty_user = \<lparr>u_phone = None, u_balance = None, u_updatedAt = None\<rparr>"

text \<open>A merge keeps every field that the written data does not mention.\<close>

definition merge_field :: "'a option \<Rightarrow> 'a option \<Rightarrow> 'a option" where
  "merge_field new old = (case new of Some v \<Rightarrow> Some v | None \<Rightarrow> old)"

definition merge_txn :: "txn_doc \<Rightarrow> txn_doc \<Rightarrow> txn_doc" where
  "merge_txn new old =
     \<lparr>t_phone = merge_field (t_phone new) (t_phone old),
      t_amount = merge_field (t_amount new) (t_amount old),
      t_status = merge_field (t_status new) (t_status old),
      t_reference = merge_field (t_reference new) (t_reference old),
      t_createdAt = merge_field (t_createdAt new) (t_createdAt old),
      t_updatedAt = merge_field (t_updatedAt new) (t_updatedAt old),
      t_callback = merge_field (t_callback new) (t_callback old),
      t_swiftwallet = merge_field (t_swiftwallet new) (t_swiftwallet old),
      t_error = merge_field (t_error new) (t_error old)\<rparr>"

definition merge_user :: "user_doc \<Rightarrow> user_doc \<Rightarrow> user_doc" where
  "merge_user new old =
     \<lparr>u_phone = merge_field (u_phone new) (u_phone old),
      u_balance = merge_field (u_balance new) (u_balance old),
      u_updatedAt = merge_field (u_updatedAt new) (u_updatedAt old)\<rparr>"

text \<open>\<^verbatim>\<open>doc(id).get()\<close> is one read.\<close>

definition count_read :: "state \<Rightarrow> state" where
  "count_read st = st\<lparr>reads := reads st + 1\<rparr>"

text \<open>\<^verbatim>\<open>doc(id).set(data)\<close> replaces the document; with \<^verbatim>\<open>{ merge: true }\<close> it merges.\<close>

definition set_txn :: "string \<Rightarrow> txn_doc \<Rightarrow> state \<Rightarrow> state" where
  "set_txn ref d st = st\<lparr>transactions := AList.update ref d (transactions st)\<rparr>"

definition set_txn_merge :: "string \<Rightarrow> txn_doc \<Rightarrow> state \<Rightarrow> state" where
  "set_txn_merge ref d st =
     set_txn ref
       (merge_txn d (case map_of (transactions st) ref of Some old \<Rightarrow> old | None \<Rightarrow> empty_txn)) st"

definition set_user :: "string \<Rightarrow> user_doc \<Rightarrow> state \<Rightarrow> state" where
  "set_user phone d st = st\<lparr>users := AList.update phone d (users st)\<rparr>"

definition set_user_merge :: "string \<Rightarrow> user_doc \<Rightarrow> state \<Rightarrow> state" where
  "set_user_merge phone d st =
     set_user phone
       (merge_user d (case map_of (users st) phone of Some old \<Rightarrow> old | None \<Rightarrow> empty_user)) st"

section \<open>snapshotFor\<close>

text \<open>One entry of the transaction list of a snapshot.\<close>

record txn_view =
  v_id :: string
  v_amount :: jsnum
  v_status :: string
  v_date :: nat
  v_reference :: string

text \<open>
  The query \<^verbatim>\<open>where("phone", "==", phone).where("status", "==", "SUCCESS")\<close> and the
  \<^verbatim>\<open>reduce\<close> over its documents: \<^verbatim>\<open>sum + (parseFloat(amount) || 0)\<close>, from 0.
\<close>

definition success_txns :: "string \<Rightarrow> (string \<times> txn_doc) list \<Rightarrow> (string \<times> txn_doc) list" where
  "success_txns phone txns =
     filter (\<lambda>(ref, d). t_phone d = Some phone \<and> t_status d = Some ''SUCCESS'') txns"

definition parseFloat_field :: "jsnum option \<Rightarrow> jsnum" where
  "parseFloat_field a = (case a of Some n \<Rightarrow> parseFloat (JNum n) | None \<Rightarrow> parseFloat JUndef)"

definition success_sum :: "string \<Rightarrow> (string \<times> txn_doc) list \<Rightarrow> jsnum" where
  "success_sum phone txns =
     foldl (\<lambda>sum (ref, d). num_add sum (num_or (Some (parseFloat_field (t_amount d))) (Fin 0)))
       (Fin 0) (success_txns phone txns)"

text \<open>
  The query \<^verbatim>\<open>where("phone", "==", phone).orderBy("createdAt", "desc").limit(5)\<close>: the
  documents of that phone that have the ordering field, newest first (equal times by
  document id, in the same direction), at most five.
\<close>

definition recent_txns :: "string \<Rightarrow> (string \<times> txn_doc) list \<Rightarrow> ((nat \<times> string) \<times> txn_doc) list" where
  "recent_txns phone txns =
     take 5 (rev (sort_key fst
       (List.map_filter
          (\<lambda>(ref, d). if t_phone d = Some phone
             then (case t_createdAt d of Some c \<Rightarrow> Some ((c, ref), d) | None \<Rightarrow> None)
             else None)
          txns)))"

definition txn_view_of :: "nat \<Rightarrow> ((nat \<times> string) \<times> txn_doc) \<Rightarrow> txn_view" where
  "txn_view_of now e =
     (case e of ((c, ref), d) \<Rightarrow>
        \<lparr>v_id = ref,
         v_amount = num_or (t_amount d) (Fin 0),
         v_status = str_or (t_status d) ''PENDING'',
         v_date = (case t_createdAt d of Some c' \<Rightarrow> c' | None \<Rightarrow> now),
         v_reference = str_or (t_reference d) ref\<rparr>)"

text \<open>
  \<^verbatim>\<open>snapshotFor(phone)\<close>. The balance is \<^verbatim>\<open>Number(balance || 0)\<close> of the user document, 0
  without one; when there is no document or the number is not finite or negative, it is
  recomputed from the successful transactions and written back. The history query is
  inside a \<^verbatim>\<open>try\<close>: when it fails for want of the index, the list is empty.
\<close>

definition snapshotFor :: "nat \<Rightarrow> string \<Rightarrow> state \<Rightarrow> state \<times> jsnum \<times> txn_view list" where
  "snapshotFor now phone st =
     (let st1 = count_read st;
          userDoc = map_of (users st1) phone;
          balance = (case userDoc of Some u \<Rightarrow> num_or (u_balance u) (Fin 0) | None \<Rightarrow> Fin 0);
          invalid = (userDoc = None \<or> \<not> isFinite balance \<or> num_less balance (Fin 0));
          st2 = (if invalid then count_read st1 else st1);
          balance' = (if invalid then success_sum phone (transactions st2) else balance);
          st3 = (if invalid
                 then set_user_merge phone
                        \<lparr>u_phone = Some phone, u_balance = Some balance', u_updatedAt = Some now\<rparr> st2
                 else st2);
          st4 = count_read st3;
          txns = (if index_ready st4
                  then map (txn_view_of now) (recent_txns phone (transactions st4))
                  else [])
      in (st4, balance', txns))"

section \<open>The event stream\<close>

text \<open>The payload of one \<^verbatim>\<open>data:\<close> event.\<close>

record sse_msg =
  m_phone :: string
  m_balance :: jsnum
  m_transactions :: "txn_view list"
  m_status :: "string option"
  m_reference :: "string option"
  m_timestamp :: nat


text \<open>
  \<^verbatim>\<open>removeSseClient\<close>: the first entry of that response is taken out and its interval
  cleared; a set left empty is deleted from the registry.
\<close>

fun remove_first :: "nat \<Rightarrow> sse_entry list \<Rightarrow> sse_entry list" where
  "remove_first r [] = []"
| "remove_first r (e # es) = (if res e = r then es else e # remove_first r es)"

definition removeSseClient :: "string \<Rightarrow> nat \<Rightarrow> state \<Rightarrow> state" where
  "removeSseClient phone r st =
     (case sseClients st phone of
        None \<Rightarrow> st
      | Some es \<Rightarrow>
          (let cleared = (case find (\<lambda>e. res e = r) es of
                            Some e \<Rightarrow> timers st - {hb e} | None \<Rightarrow> timers st);
               es' = remove_first r es
           in st\<lparr>timers := cleared,
                 sseClients := (sseClients st)(phone := (if es' = [] then None else Some es'))\<rparr>))"

text \<open>
  The loop of \<^verbatim>\<open>broadcast\<close> over the entries: the payload is written to each response;
  where the write raises, the connection is removed.
\<close>

fun push_all :: "string \<Rightarrow> sse_msg \<Rightarrow> sse_entry list \<Rightarrow> state \<Rightarrow> state \<times> (nat \<times> sse_msg) list" where
  "push_all phone payload [] st = (st, [])"
| "push_all phone payload (e # es) st =
     (if res e \<in> dead st then push_all phone payload es (removeSseClient phone (res e) st)
      else (case push_all phone payload es st of (st', out) \<Rightarrow> (st', (res e, payload) # out)))"

text \<open>
  The payload of a snapshot event; \<^verbatim>\<open>opts.status || null\<close> and \<^verbatim>\<open>opts.reference || null\<close>
  are \<open>None\<close> when the option is not given.
\<close>

definition snapshot_event ::
  "string \<Rightarrow> jsnum \<Rightarrow> txn_view list \<Rightarrow> string \<Rightarrow> string \<Rightarrow> nat \<Rightarrow> sse_msg" where
  "snapshot_event phone balance txns status reference now =
     \<lparr>m_phone = phone, m_balance = balance, m_transactions = txns,
      m_status = (if status \<noteq> [] then Some status else None),
      m_reference = (if reference \<noteq> [] then Some reference else None),
      m_timestamp = now\<rparr>"

text \<open>
  \<^verbatim>\<open>broadcast(phone, { status, reference })\<close>: nothing without a live connection;
  otherwise a snapshot is taken and pushed to every connection of the phone.
\<close>

definition broadcast :: "nat \<Rightarrow> string \<Rightarrow> string \<Rightarrow> string \<Rightarrow> state \<Rightarrow> state \<times> (nat \<times> sse_msg) list" where
  "broadcast now phone status reference st =
     (case sseClients st phone of
        None \<Rightarrow> (st, [])
      | Some es \<Rightarrow>
          if es = [] then (st, [])
          else (case snapshotFor now phone st of
                  (st1, balance, txns) \<Rightarrow>
                    push_all phone (snapshot_event phone balance txns status reference now) es st1))"

section \<open>The request handlers\<close>

text \<open>A response: a status code with a JSON body, a bare status, or the open event stream.\<close>

datatype response = Json nat jsval | End nat | EventStream

definition ack :: "rat \<Rightarrow> string \<Rightarrow> jsval" where
  "ack code desc = JObj [(''ResultCode'', JNum (Fin code)), (''ResultDesc'', JStr desc)]"

subsection \<open>The balance credit\<close>

text \<open>
  The Firestore transaction of the success paths: the user document is read, the amount
  is added to \<^verbatim>\<open>balance || 0\<close> when the document exists, and the document is replaced.
\<close>

definition credit :: "nat \<Rightarrow> string \<Rightarrow> jsnum \<Rightarrow> state \<Rightarrow> state" where
  "credit now phone amount st =
     (let st1 = count_read st;
          newBal = (case map_of (users st1) phone of
                      Some u \<Rightarrow> num_add amount (num_or (u_balance u) (Fin 0))
                    | None \<Rightarrow> amount)
      in set_user phone \<lparr>u_phone = Some phone, u_balance = Some newBal, u_updatedAt = Some now\<rparr> st1)"

subsection \<open>POST /callback\<close>

text \<open>
  The success test of the callback. The disjunction is evaluated from the left; the
  description is lower-cased only when it is reached and truthy, and a truthy
  description that is not a string has no \<^verbatim>\<open>toLowerCase\<close>.
\<close>

definition isSuccess :: "jsval \<Rightarrow> js_error + bool" where
  "isSuccess data =
     (let status = js_or (js_or (get data ''status'') (get (get data ''result'') ''status''))
                     (get data ''ResultCode'');
          resultDesc = js_or (js_or (get data ''ResultDesc'') (get (get data ''result'') ''ResultDesc''))
                         (JStr []);
          byCode = (get data ''ResultCode'' = JStr ''0'' \<or> get data ''ResultCode'' = JNum (Fin 0))
      in if get data ''success'' = JBool True then Inr True
         else if status = JStr ''0'' then Inr True
         else if status = JNum (Fin 0) then Inr True
         else if truthy status \<and> js_String_lower_is status ''completed'' then Inr True
         else if truthy resultDesc then
           (case resultDesc of
              JStr d \<Rightarrow> if str_includes (toLowerCase d) ''success'' then Inr True else Inr byCode
            | _ \<Rightarrow> Inl TypeError)
         else Inr byCode)"

text \<open>The two branches of the callback once the payload is validated.\<close>

definition on_success ::
  "nat \<Rightarrow> string \<Rightarrow> jsnum \<Rightarrow> string \<Rightarrow> jsval \<Rightarrow> state \<Rightarrow> state \<times> (nat \<times> sse_msg) list" where
  "on_success now phone amount reference data st =
     (let st1 = set_txn_merge reference
                  (empty_txn\<lparr>t_phone := Some phone, t_amount := Some amount,
                     t_status := Some ''SUCCESS'', t_reference := Some reference,
                     t_callback := Some data, t_updatedAt := Some now\<rparr>) st;
          st2 = credit now phone amount st1
      in broadcast now phone ''SUCCESS'' reference st2)"

definition on_failure ::
  "nat \<Rightarrow> string \<Rightarrow> string \<Rightarrow> jsval \<Rightarrow> state \<Rightarrow> state \<times> (nat \<times> sse_msg) list" where
  "on_failure now phone reference data st =
     (let st1 = set_txn_merge reference
                  (empty_txn\<lparr>t_status := Some ''FAILED'', t_callback := Some data,
                     t_updatedAt := Some now\<rparr>) st
      in broadcast now phone ''FAILED'' reference st1)"

text \<open>The values that the handler looks up in the payload, each under several names.\<close>

definition payload_phone :: "jsval \<Rightarrow> jsval" where
  "payload_phone data =
     js_or (js_or (js_or (get (get data ''result'') ''Phone'') (get data ''phone_number''))
              (get data ''Phone''))
       (get data ''MSISDN'')"

definition payload_reference :: "jsval \<Rightarrow> jsval" where
  "payload_reference data =
     js_or (js_or (get data ''external_reference'') (get data ''CheckoutRequestID''))
       (get data ''reference'')"

definition payload_rawAmount :: "jsval \<Rightarrow> jsval" where
  "payload_rawAmount data =
     js_or (js_or (js_or (js_or (get (get data ''result'') ''Amount'') (get data ''amount''))
                     (get data ''Amount''))
              (get data ''TransAmount''))
       (JNum (Fin 0))"

text \<open>
  The body of the handler after the check of the secret. An exception (from
  \<^verbatim>\<open>formatPhone\<close>, from the success test, or from \<^verbatim>\<open>doc(reference)\<close> when the reference
  is not a string) is caught and answered with status 500; each of them is raised before
  the first write.
\<close>

definition reconcile :: "nat \<Rightarrow> jsval \<Rightarrow> state \<Rightarrow> state \<times> response \<times> (nat \<times> sse_msg) list" where
  "reconcile now data st =
     (case formatPhone (payload_phone data) of
        Inl e \<Rightarrow> (st, Json 500 (ack 1 ''Failed''), [])
      | Inr phone \<Rightarrow>
          (let reference = payload_reference data;
               amount = parseFloat (payload_rawAmount data)
           in case phone of
                None \<Rightarrow> (st, Json 200 (ack 0 ''Ignored (missing ids)''), [])
              | Some p \<Rightarrow>
                  if \<not> truthy reference then (st, Json 200 (ack 0 ''Ignored (missing ids)''), [])
                  else if isNaN amount \<or> num_le amount (Fin 0)
                  then (st, Json 200 (ack 0 ''Ignored invalid amount''), [])
                  else (case isSuccess data of
                          Inl e \<Rightarrow> (st, Json 500 (ack 1 ''Failed''), [])
                        | Inr ok \<Rightarrow>
                            (case reference of
                               JStr r \<Rightarrow>
                                 (case (if ok then on_success now p amount r data st
                                        else on_failure now p r data st) of
                                    (st', out) \<Rightarrow> (st', Json 200 (ack 0 ''OK''), out))
                             | _ \<Rightarrow> (st, Json 500 (ack 1 ''Failed''), [])))))"

text \<open>
  The check of the shared secret: \<^verbatim>\<open>process.env.CALLBACK_SECRET\<close> is a string or unset,
  \<^verbatim>\<open>req.query.secret\<close> is whatever the query string carried.
\<close>

definition unauthorized :: "string option \<Rightarrow> jsval \<Rightarrow> bool" where
  "unauthorized secret q = (case secret of Some s \<Rightarrow> s \<noteq> [] \<and> q \<noteq> JStr s | None \<Rightarrow> False)"

definition callback ::
  "string option \<Rightarrow> nat \<Rightarrow> jsval \<Rightarrow> jsval \<Rightarrow> state \<Rightarrow> state \<times> response \<times> (nat \<times> sse_msg) list" where
  "callback secret now q data st =
     (if unauthorized secret q then (st, Json 401 (ack 1 ''Unauthorized''), [])
      else reconcile now data st)"

subsection \<open>POST /callback of the earlier deployment\<close>

text \<open>
  The file \<^verbatim>\<open>src/server.js\<close> is an earlier deployment of the same service, without the
  event stream. Its callback has the same check of the secret and the same credit; it
  looks the phone and the amount up under fewer names, converts the amount with
  \<^verbatim>\<open>Number\<close> without testing it, counts as success only
  \<^verbatim>\<open>data.success && data.status === "completed"\<close>, and answers \<open>Success\<close> whether it
  credited or not. \<^verbatim>\<open>data.phone_number\<close> is read without \<^verbatim>\<open>?.\<close>, which raises when the
  body is \<^verbatim>\<open>null\<close> or \<^verbatim>\<open>undefined\<close>.
\<close>

definition legacy_reconcile :: "nat \<Rightarrow> jsval \<Rightarrow> state \<Rightarrow> state \<times> response" where
  "legacy_reconcile now data st =
     (if data = JUndef \<or> data = JNull then (st, Json 500 (ack 1 ''Failed''))
      else
        (case formatPhone (js_or (get (get data ''result'') ''Phone'') (get data ''phone_number'')) of
           Inl e \<Rightarrow> (st, Json 500 (ack 1 ''Failed''))
         | Inr phone \<Rightarrow>
             (let amount = to_number (js_or (get (get data ''result'') ''Amount'') (get data ''amount''));
                  reference = get data ''external_reference'';
                  success = (truthy (get data ''success'') \<and> get data ''status'' = JStr ''completed'')
              in case phone of
                   None \<Rightarrow> (st, Json 200 (ack 0 ''Success''))
                 | Some p \<Rightarrow>
                     if success \<and> truthy reference then
                       (case reference of
                          JStr r \<Rightarrow>
                            (credit now p amount
                               (set_txn_merge r
                                  (empty_txn\<lparr>t_status := Some ''SUCCESS'', t_callback := Some data,
                                     t_updatedAt := Some now\<rparr>) st),
                             Json 200 (ack 0 ''Success''))
                        | _ \<Rightarrow> (st, Json 500 (ack 1 ''Failed'')))
                     else (st, Json 200 (ack 0 ''Success'')))))"

definition legacy_callback ::
  "string option \<Rightarrow> nat \<Rightarrow> jsval \<Rightarrow> jsval \<Rightarrow> state \<Rightarrow> state \<times> response" where
  "legacy_callback secret now q data st =
     (if unauthorized secret q then (st, Json 401 (ack 1 ''Unauthorized''))
      else legacy_reconcile now data st)"

subsection \<open>POST /update-status/:reference\<close>



definition failure :: "string \<Rightarrow> jsval" where
  "failure msg = JObj [(''success'', JBool False), (''message'', JStr msg)]"


subsection \<open>POST /pay\<close>

text \<open>
  What the gateway call comes to. The request is sent with \<^verbatim>\<open>timeout: 30000\<close>
  (milliseconds); the promise is rejected when no response arrives within it, on a
  network error and on a status outside 2xx. Otherwise \<^verbatim>\<open>resp.data\<close> is the body.
\<close>

datatype gateway_outcome = Responded jsval | Threw

record gateway_call =
  g_amount :: jsnum
  g_phone_number :: string
  g_external_reference :: string
  g_timeout :: "nat option"

text \<open>\<^verbatim>\<open>'ORDER-' + Date.now()\<close>: the decimal digits of the time.\<close>

fun digits_of :: "nat \<Rightarrow> string" where
  "digits_of n =
     (if n < 10 then [''0123456789'' ! n]
      else digits_of (n div 10) @ [''0123456789'' ! (n mod 10)])"

declare digits_of.simps [simp del]

text \<open>
  The handler. \<open>now\<close> is the time of the request, \<open>later\<close> the time of the write that
  follows the answer of the gateway. When the call raises, control passes to the
  \<^verbatim>\<open>catch\<close> block, which answers with status 500.
\<close>

definition pending_txn :: "string \<Rightarrow> jsnum \<Rightarrow> string \<Rightarrow> nat \<Rightarrow> txn_doc" where
  "pending_txn phone rounded reference now =
     empty_txn\<lparr>t_phone := Some phone, t_amount := Some rounded, t_status := Some ''PENDING'',
       t_reference := Some reference, t_createdAt := Some now\<rparr>"

definition pay ::
  "nat \<Rightarrow> nat \<Rightarrow> gateway_outcome \<Rightarrow> jsval \<Rightarrow> state \<Rightarrow> state \<times> response \<times> (nat \<times> sse_msg) list" where
  "pay now later outcome body st =
     (if body = JUndef \<or> body = JNull then (st, Json 500 (failure ''Server error during /pay''), [])
      else
        (case formatPhone (get body ''phone'') of
           Inl e \<Rightarrow> (st, Json 500 (failure ''Server error during /pay''), [])
         | Inr None \<Rightarrow> (st, Json 400 (failure ''Invalid phone format''), [])
         | Inr (Some formattedPhone) \<Rightarrow>
             (let amount = get body ''amount''
              in if \<not> truthy amount \<or> num_less (to_number amount) (Fin 1)
                 then (st, Json 400 (failure ''Amount must be >= 1''), [])
                 else
                   (let external_reference = ''ORDER-'' @ digits_of now;
                        rounded = Math_round (to_number amount);
                        st1 = set_txn external_reference
                                (pending_txn formattedPhone rounded external_reference now) st
                    in case broadcast now formattedPhone ''PENDING'' external_reference st1 of
                         (st2, out1) \<Rightarrow>
                           (case outcome of
                              Threw \<Rightarrow> (st2, Json 500 (failure ''Server error during /pay''), out1)
                            | Responded data \<Rightarrow>
                                if truthy (get data ''success'') then
                                  (set_txn_merge external_reference
                                     (empty_txn\<lparr>t_phone := Some formattedPhone, t_amount := Some rounded,
                                        t_status := Some ''INITIATED'',
                                        t_reference := Some external_reference,
                                        t_swiftwallet := Some data, t_updatedAt := Some later\<rparr>) st2,
                                   Json 200 (JObj [(''success'', JBool True),
                                      (''message'', JStr ''STK push sent, check your phone''),
                                      (''amount'', JNum rounded), (''phone'', JStr formattedPhone),
                                      (''reference'', JStr external_reference)]),
                                   out1)
                                else
                                  (let err = js_or (get data ''error'') (JStr ''Payment initiation failed'');
                                       st3 = set_txn_merge external_reference
                                               (empty_txn\<lparr>t_phone := Some formattedPhone,
                                                  t_amount := Some rounded, t_status := Some ''FAILED'',
                                                  t_reference := Some external_reference,
                                                  t_error := Some err, t_updatedAt := Some later\<rparr>) st2
                                    in case broadcast later formattedPhone ''FAILED'' external_reference st3 of
                                         (st4, out2) \<Rightarrow>
                                           (st4, Json 400 (JObj [(''success'', JBool False), (''message'', err)]),
                                            out1 @ out2)))))))"

text \<open>The call that the handler sends to the gateway, when it gets that far.\<close>

definition pay_gateway_call :: "nat \<Rightarrow> jsval \<Rightarrow> gateway_call option" where
  "pay_gateway_call now body =
     (case formatPhone (get body ''phone'') of
        Inr (Some formattedPhone) \<Rightarrow>
          if body = JUndef \<or> body = JNull \<or> \<not> truthy (get body ''amount'')
             \<or> num_less (to_number (get body ''amount'')) (Fin 1)
          then None
          else Some \<lparr>g_amount = Math_round (to_number (get body ''amount'')),
                     g_phone_number = formattedPhone,
                     g_external_reference = ''ORDER-'' @ digits_of now,
                     g_timeout = Some 30000\<rparr>
      | _ \<Rightarrow> None)"

subsection \<open>GET /events/:phone\<close>


text \<open>The \<^verbatim>\<open>close\<close> event of the request removes the connection.\<close>

definition stream_closed :: "string \<Rightarrow> nat \<Rightarrow> state \<Rightarrow> state" where
  "stream_closed phone r st = removeSseClient phone r st"

section \<open>Sample states and payloads\<close>

text \<open>The server after start: empty collections, no connection, the index in place.\<close>

definition init_state :: state where
  "init_state = \<lparr>transactions = [], users = [], index_ready = True, reads = 0,
     sseClients = Map.empty, timers = {}, next_timer = 0, dead = {}\<rparr>"

text \<open>A callback that reports the success of the payment \<open>REF-1\<close> of 100 units.\<close>

definition success_payload :: jsval where
  "success_payload = JObj [(''phone_number'', JStr ''0712345678''),
     (''external_reference'', JStr ''REF-1''), (''amount'', JNum (Fin 100)),
     (''success'', JBool True)]"

text \<open>The same callback in the words the earlier deployment accepts.\<close>

definition completed_payload :: jsval where
  "completed_payload = JObj [(''phone_number'', JStr ''0712345678''),
     (''external_reference'', JStr ''REF-1''), (''amount'', JNum (Fin 100)),
     (''success'', JBool True), (''status'', JStr ''completed'')]"

text \<open>The same callback without a reference.\<close>

definition no_reference_payload :: jsval where
  "no_reference_payload = JObj [(''phone_number'', JStr ''0712345678''),
     (''amount'', JNum (Fin 100)), (''success'', JBool True)]"

text \<open>A connection is alive when a write to it does not raise.\<close>

definition alive :: "state \<Rightarrow> sse_entry \<Rightarrow> bool" where
  "alive st e = (res e \<notin> dead st)"

text \<open>A callback whose amount is not a number.\<close>

definition bad_amount_payload :: jsval where
  "bad_amount_payload = JObj [(''phone_number'', JStr ''0712345678''),
     (''external_reference'', JStr ''REF-1''), (''amount'', JStr ''ten''),
     (''success'', JBool True)]"

text \<open>
  An account with six payments, made at the times 1 to 6, three of them successful, and
  the balance that goes with them.
\<close>

definition txn_at :: "string \<Rightarrow> nat \<Rightarrow> string \<Rightarrow> txn_doc" where
  "txn_at status t ref =
     empty_txn\<lparr>t_phone := Some ''254712345678'', t_amount := Some (Fin 100),
       t_status := Some status, t_reference := Some ref, t_createdAt := Some t\<rparr>"

definition history_state :: state where
  "history_state = init_state
     \<lparr>transactions :=
        [(''ORDER-1'', txn_at ''SUCCESS'' 1 ''ORDER-1''), (''ORDER-2'', txn_at ''FAILED'' 2 ''ORDER-2''),
         (''ORDER-3'', txn_at ''SUCCESS'' 3 ''ORDER-3''), (''ORDER-4'', txn_at ''PENDING'' 4 ''ORDER-4''),
         (''ORDER-5'', txn_at ''INITIATED'' 5 ''ORDER-5''), (''ORDER-6'', txn_at ''SUCCESS'' 6 ''ORDER-6'')],
      users := [(''254712345678'',
         \<lparr>u_phone = Some ''254712345678'', u_balance = Some (Fin 300), u_updatedAt = Some 6\<rparr>)]\<rparr>"

text \<open>The same account while the composite index of the history query does not exist.\<close>

definition no_index_state :: state where
  "no_index_state = history_state\<lparr>index_ready := False\<rparr>"

text \<open>The same account with two open streams, the second of which is broken.\<close>

definition streaming_state :: state where
  "streaming_state = history_state
     \<lparr>sseClients := [''254712345678'' \<mapsto> [\<lparr>res = 1, hb = 0\<rparr>, \<lparr>res = 2, hb = 1\<rparr>]],
      timers := {0, 1}, next_timer := 2, dead := {2}\<rparr>"

text \<open>
  The same account when the user document has lost its balance field, and when the field
  holds \<open>NaN\<close>.
\<close>

definition lost_balance_state :: state where
  "lost_balance_state = history_state
     \<lparr>users := [(''254712345678'',
         \<lparr>u_phone = Some ''254712345678'', u_balance = None, u_updatedAt = Some 6\<rparr>)]\<rparr>"

definition nan_balance_state :: state where
  "nan_balance_state = history_state
     \<lparr>users := [(''254712345678'',
         \<lparr>u_phone = Some ''254712345678'', u_balance = Some NaN, u_updatedAt = Some 6\<rparr>)]\<rparr>"

text \<open>The same account with a negative balance, and without a user document.\<close>

definition negative_balance_state :: state where
  "negative_balance_state = history_state
     \<lparr>users := [(''254712345678'',
         \<lparr>u_phone = Some ''254712345678'', u_balance = Some (Fin (- 50)), u_updatedAt = Some 6\<rparr>)]\<rparr>"

definition no_user_state :: state where
  "no_user_state = history_state\<lparr>users := []\<rparr>"


text \<open>
  The state after the callback \<open>success_payload\<close> was handled at time 5 by the server
  just started: the payment \<open>REF-1\<close> has succeeded and its 100 units are credited.
\<close>

definition credited_state :: state where
  "credited_state = init_state
     \<lparr>transactions := [(''REF-1'', empty_txn\<lparr>t_phone := Some ''254712345678'',
          t_amount := Some (Fin 100), t_status := Some ''SUCCESS'', t_reference := Some ''REF-1'',
          t_callback := Some success_payload, t_updatedAt := Some 5\<rparr>)],
      users := [(''254712345678'', \<lparr>u_phone = Some ''254712345678'', u_balance = Some (Fin 100),
          u_updatedAt = Some 5\<rparr>)],
      reads := 1\<rparr>"

text \<open>The same state with one open stream of that account.\<close>

definition credited_streaming_state :: state where
  "credited_streaming_state = credited_state
     \<lparr>sseClients := [''254712345678'' \<mapsto> [\<lparr>res = 1, hb = 0\<rparr>]], timers := {0}, next_timer := 1\<rparr>"

text \<open>A callback that reports the failure of the payment \<open>REF-1\<close>.\<close>

definition failure_payload :: jsval where
  "failure_payload = JObj [(''phone_number'', JStr ''0712345678''),
     (''external_reference'', JStr ''REF-1''), (''amount'', JNum (Fin 100)),
     (''success'', JBool False), (''status'', JStr ''failed'')]"

text \<open>The stored status and the stored balance, for reading a state.\<close>

definition status_of :: "state \<Rightarrow> string \<Rightarrow> string option" where
  "status_of st reference =
     (case map_of (transactions st) reference of Some d \<Rightarrow> t_status d | None \<Rightarrow> None)"

definition balance_of :: "state \<Rightarrow> string \<Rightarrow> jsnum option" where
  "balance_of st phone =
     (case map_of (users st) phone of Some u \<Rightarrow> u_balance u | None \<Rightarrow> None)"

text \<open>The live connections of a phone.\<close>

definition connections :: "state \<Rightarrow> string \<Rightarrow> sse_entry list" where
  "connections st phone = (case sseClients st phone of Some es \<Rightarrow> es | None \<Rightarrow> [])"

text \<open>
  A callback whose only success signal is the numeric status 0, and the same callback
  with the status as the string \<open>0\<close>.
\<close>

definition zero_status_payload :: jsval where
  "zero_status_payload = JObj [(''phone_number'', JStr ''0712345678''),
     (''external_reference'', JStr ''REF-1''), (''amount'', JNum (Fin 100)),
     (''status'', JNum (Fin 0))]"

definition zero_string_status_payload :: jsval where
  "zero_string_status_payload = JObj [(''phone_number'', JStr ''0712345678''),
     (''external_reference'', JStr ''REF-1''), (''amount'', JNum (Fin 100)),
     (''status'', JStr ''0'')]"

text \<open>A payment request of 100 units, and an operator's override to success.\<close>

definition pay_body :: jsval where
  "pay_body = JObj [(''phone'', JStr ''0712345678''), (''amount'', JNum (Fin 100))]"

definition override_body :: jsval where
  "override_body = JObj [(''status'', JStr ''success'')]"


section \<open>Unfolding the model\<close>

lemmas js_defs = isNaN_def truthy_num_def js_or_def num_or_def str_or_def
  toLowerCase_def toUpperCase_def to_lower_char_def to_upper_char_def
  is_digit_def startsWith_def format_digits_def

lemmas store_defs = empty_txn_def empty_user_def merge_field_def merge_txn_def merge_user_def
  count_read_def set_txn_def set_txn_merge_def set_user_def set_user_merge_def

lemmas handler_defs = ack_def credit_def isSuccess_def on_success_def on_failure_def
  payload_phone_def payload_reference_def payload_rawAmount_def reconcile_def
  unauthorized_def callback_def broadcast_def Let_def

lemmas snapshot_defs = snapshotFor_def recent_txns_def txn_view_of_def success_sum_def
  success_txns_def parseFloat_field_def snapshot_event_def

lemmas read_defs = status_of_def balance_of_def connections_def

lemmas sample_defs = init_state_def history_state_def no_index_state_def streaming_state_def
  txn_at_def success_payload_def no_reference_payload_def bad_amount_payload_def
  credited_state_def credited_streaming_state_def failure_payload_def
  lost_balance_state_def nan_balance_state_def negative_balance_state_def no_user_state_def
  zero_status_payload_def zero_string_status_payload_def pay_body_def override_body_def
  completed_payload_def

lemmas all_defs = sample_defs read_defs handler_defs snapshot_defs js_defs store_defs alive_def

section \<open>What each operation leaves alone\<close>

lemma removeSseClient_frame [simp]:
  "transactions (removeSseClient phone r st) = transactions st"
  "users (removeSseClient phone r st) = users st"
  "reads (removeSseClient phone r st) = reads st"
  "index_ready (removeSseClient phone r st) = index_ready st"
  "dead (removeSseClient phone r st) = dead st"
  "next_timer (removeSseClient phone r st) = next_timer st"
  by (simp_all add: removeSseClient_def Let_def split: option.splits)

lemma push_all_frame [simp]:
  "transactions (fst (push_all phone payload es st)) = transactions st"
  "users (fst (push_all phone payload es st)) = users st"
  "reads (fst (push_all phone payload es st)) = reads st"
  "index_ready (fst (push_all phone payload es st)) = index_ready st"
  "dead (fst (push_all phone payload es st)) = dead st"
  "next_timer (fst (push_all phone payload es st)) = next_timer st"
  by (induction es arbitrary: st; simp add: split_beta)+

lemma snapshotFor_frame [simp]:
  "transactions (fst (snapshotFor now phone st)) = transactions st"
  "sseClients (fst (snapshotFor now phone st)) = sseClients st"
  "timers (fst (snapshotFor now phone st)) = timers st"
  "dead (fst (snapshotFor now phone st)) = dead st"
  "index_ready (fst (snapshotFor now phone st)) = index_ready st"
  "next_timer (fst (snapshotFor now phone st)) = next_timer st"
  by (simp_all add: snapshotFor_def Let_def count_read_def set_user_merge_def set_user_def)

lemma broadcast_frame [simp]:
  "transactions (fst (broadcast now phone status reference st)) = transactions st"
  "dead (fst (broadcast now phone status reference st)) = dead st"
  "index_ready (fst (broadcast now phone status reference st)) = index_ready st"
  "next_timer (fst (broadcast now phone status reference st)) = next_timer st"
  by (simp_all add: broadcast_def split_beta split: option.splits)

lemma credit_frame [simp]:
  "transactions (credit now phone amount st) = transactions st"
  "sseClients (credit now phone amount st) = sseClients st"
  "timers (credit now phone amount st) = timers st"
  "dead (credit now phone amount st) = dead st"
  "index_ready (credit now phone amount st) = index_ready st"
  by (simp_all add: credit_def Let_def count_read_def set_user_def)

lemma set_txn_merge_frame [simp]:
  "users (set_txn_merge ref d st) = users st"
  "sseClients (set_txn_merge ref d st) = sseClients st"
  "timers (set_txn_merge ref d st) = timers st"
  "dead (set_txn_merge ref d st) = dead st"
  "index_ready (set_txn_merge ref d st) = index_ready st"
  "reads (set_txn_merge ref d st) = reads st"
  by (simp_all add: set_txn_merge_def set_txn_def)


section \<open>The loop of broadcast\<close>

lemma alive_frame [simp]:
  "alive (removeSseClient phone r st) = alive st"
  "alive (fst (snapshotFor now phone st)) = alive st"
  "alive (fst (push_all phone payload es st)) = alive st"
  by (simp_all add: alive_def fun_eq_iff)









section \<open>The history query\<close>













section \<open>The balance of a snapshot\<close>








section \<open>Status and balance through the handlers\<close>



lemma status_of_frame [simp]:
  "status_of (fst (broadcast now p status reference st)) = status_of st"
  "status_of (credit now p a st) = status_of st"
  "status_of (count_read st) = status_of st"
  by (simp_all add: status_of_def fun_eq_iff count_read_def)

lemma balance_of_frame [simp]:
  "balance_of (set_txn_merge r d st) = balance_of st"
  "balance_of (count_read st) = balance_of st"
  by (simp_all add: balance_of_def fun_eq_iff count_read_def)

lemma connections_frame [simp]:
  "connections (set_txn_merge r d st) = connections st"
  "connections (credit now p a st) = connections st"
  "connections (count_read st) = connections st"
  "alive (set_txn_merge r d st) = alive st"
  "alive (credit now p a st) = alive st"
  "alive (count_read st) = alive st"
  by (simp_all add: connections_def alive_def fun_eq_iff count_read_def)




section \<open>The handlers, branch by branch\<close>


text \<open>An exception in the handler is raised before the first write.\<close>

lemma reconcile_raise_no_write:
  "snd (reconcile now data st) = (Json 500 body, out) \<Longrightarrow>
   reconcile now data st = (st, Json 500 (ack 1 ''Failed''), [])"
  by (auto simp: reconcile_def Let_def split_beta
      split: sum.splits option.splits if_splits jsval.splits)





section \<open>The handlers on the sample requests\<close>

lemma floor_half: "\<lfloor>rat_of_int k + 1 / 2\<rfloor> = k"
  by linarith

lemma Math_round_int: "Math_round (Fin (rat_of_int k)) = Fin (rat_of_int k)"
  by (simp add: floor_half)

lemma Math_round_100: "Math_round (Fin 100) = Fin 100"
  using Math_round_int [of 100] by simp


lemma history_success_sum:
  "success_sum ''254712345678'' (transactions history_state) = Fin 300"
  by (simp add: sample_defs snapshot_defs js_defs store_defs)

lemma first_callback: "reconcile 5 success_payload init_state = (credited_state, Json 200 (ack 0 ''OK''), [])"
  by (simp add: all_defs)




section \<open>The callback of the earlier deployment\<close>

lemma legacy_completed_payload:
  "legacy_reconcile 5 completed_payload init_state =
     (init_state\<lparr>transactions := [(''REF-1'', empty_txn\<lparr>t_status := Some ''SUCCESS'',
          t_callback := Some completed_payload, t_updatedAt := Some 5\<rparr>)],
        users := [(''254712345678'', \<lparr>u_phone = Some ''254712345678'', u_balance = Some (Fin 100),
          u_updatedAt = Some 5\<rparr>)],
        reads := 1\<rparr>,
      Json 200 (ack 0 ''Success''))"
  by (simp add: legacy_reconcile_def all_defs)

text \<open>It ignores a payload without identity or reference, as the later one does.\<close>

lemma legacy_missing_ids_ignored:
  assumes "\<not> unauthorized secret q" and "data \<noteq> JUndef" and "data \<noteq> JNull"
    and "formatPhone (js_or (get (get data ''result'') ''Phone'') (get data ''phone_number'')) = Inr phone"
    and "phone = None \<or> \<not> truthy (get data ''external_reference'')"
  shows "legacy_callback secret now q data st = (st, Json 200 (ack 0 ''Success''))"
  using assms by (auto simp: legacy_callback_def legacy_reconcile_def Let_def split: option.splits)

text \<open>It does not test the amount: the amount \<open>ten\<close> is credited as \<open>NaN\<close>.\<close>

lemma legacy_amount_unchecked:
  "balance_of (fst (legacy_callback None 5 JUndef
      (JObj [(''phone_number'', JStr ''0712345678''), (''external_reference'', JStr ''REF-1''),
             (''amount'', JStr ''ten''), (''success'', JBool True), (''status'', JStr ''completed'')])
      init_state)) ''254712345678'' = Some NaN"
  by (simp add: legacy_callback_def legacy_reconcile_def all_defs Number_str_def read_decimal_def
      read_radix_def is_space_def)

section \<open>Repeated success for one reference\<close>




section \<open>The stored status\<close>




section \<open>The balance of a snapshot\<close>




section \<open>Callbacks that are ignored\<close>



section \<open>The success test\<close>

text \<open>
  Claim C5. The numeric status 0 is lost in the lookup
  \<^verbatim>\<open>data?.status || data?.result?.status || data?.ResultCode\<close>, because 0 is falsy: a
  callback whose only signal is \<^verbatim>\<open>status: 0\<close> is classified as a failure and the
  transaction is marked \<open>FAILED\<close>, although the test \<^verbatim>\<open>status === 0\<close> is there to accept
  it. The same callback with the status \<^verbatim>\<open>"0"\<close> is a success.
\<close>

theorem numeric_zero_status_is_failure:
  "get zero_status_payload ''status'' = JNum (Fin 0)
   \<and> isSuccess zero_status_payload = Inr False
   \<and> callback None 5 JUndef zero_status_payload init_state
       = (init_state\<lparr>transactions := [(''REF-1'', empty_txn\<lparr>t_status := Some ''FAILED'',
             t_callback := Some zero_status_payload, t_updatedAt := Some 5\<rparr>)]\<rparr>,
          Json 200 (ack 0 ''OK''), [])
   \<and> isSuccess zero_string_status_payload = Inr True
   \<and> status_of (fst (callback None 5 JUndef zero_string_status_payload init_state)) ''REF-1''
       = Some ''SUCCESS''"
  by (simp add: all_defs)

section \<open>The gateway call of /pay\<close>

text \<open>
  Claim C6. The call to the gateway is sent with a timeout of 30000 milliseconds. When
  it raises (time-out, network error, error status), the \<^verbatim>\<open>catch\<close> block answers with
  status 500 and the transaction created for the request keeps the status \<open>PENDING\<close>;
  only a response that reports a rejection marks it \<open>FAILED\<close>.
\<close>

theorem gateway_error_leaves_pending:
  "pay 5 6 Threw pay_body init_state
     = (init_state\<lparr>transactions :=
          [(''ORDER-5'', pending_txn ''254712345678'' (Fin 100) ''ORDER-5'' 5)]\<rparr>,
        Json 500 (failure ''Server error during /pay''), [])
   \<and> status_of (fst (pay 5 6 Threw pay_body init_state)) ''ORDER-5'' = Some ''PENDING''
   \<and> status_of (fst (pay 5 6 (Responded (JObj [(''success'', JBool False)])) pay_body init_state)) ''ORDER-5''
       = Some ''FAILED''
   \<and> pay_gateway_call 5 pay_body
       = Some \<lparr>g_amount = Fin 100, g_phone_number = ''254712345678'',
               g_external_reference = ''ORDER-5'', g_timeout = Some 30000\<rparr>"
  by (simp add: all_defs pay_def pay_gateway_call_def pending_txn_def failure_def digits_of.simps
      Math_round_100 del: Math_round.simps)

text \<open>
  The request of the example passes the tests of the handler on the phone and on the
  amount, so the run above is the one that reaches the gateway call.
\<close>

theorem gateway_error_leaves_pending_witness:
  "formatPhone (get pay_body ''phone'') = Inr (Some ''254712345678'')
   \<and> truthy (get pay_body ''amount'')
   \<and> \<not> num_less (to_number (get pay_body ''amount'')) (Fin 1)
   \<and> status_of (fst (pay 5 6 Threw pay_body init_state)) ''ORDER-5'' = Some ''PENDING''
   \<and> fst (snd (pay 5 6 Threw pay_body init_state)) = Json 500 (failure ''Server error during /pay'')"
  using gateway_error_leaves_pending by (simp add: all_defs pending_txn_def)

section \<open>broadcast\<close>



section \<open>The first snapshot of a stream\<close>




section \<open>The shared secret of the callback\<close>

text \<open>
  Claim C9. When a callback secret is configured, a callback whose \<open>secret\<close> query
  parameter differs from it is answered with status 401 and \<open>ResultCode\<close> 1 before the
  payload is looked at: the state (collections, read count, registry) is the one before
  the request, whatever the payload, and nothing is pushed.
\<close>

theorem wrong_secret_rejected:
  "secret = Some s \<Longrightarrow> s \<noteq> [] \<Longrightarrow> q \<noteq> JStr s \<Longrightarrow>
   callback secret now q data st = (st, Json 401 (ack 1 ''Unauthorized''), [])"
  by (simp add: callback_def unauthorized_def)

theorem wrong_secret_rejected_witness:
  "Some ''s3cret'' = Some ''s3cret'' \<and> ''s3cret'' \<noteq> [] \<and> JStr ''guess'' \<noteq> JStr ''s3cret''
   \<and> callback (Some ''s3cret'') 5 (JStr ''guess'') success_payload init_state
       = (init_state, Json 401 (ack 1 ''Unauthorized''), [])
   \<and> fst (callback (Some ''s3cret'') 5 (JStr ''s3cret'') success_payload init_state) \<noteq> init_state"
  using wrong_secret_rejected [of "Some ''s3cret''" "''s3cret''" "JStr ''guess''" 5 success_payload init_state]
  by (simp add: callback_def unauthorized_def first_callback) (simp add: init_state_def credited_state_def)

text \<open>
  Claim C10. When \<open>CALLBACK_SECRET\<close> is unset or empty there is no check, in the callback
  of either deployment: whatever the \<open>secret\<close> query parameter is, present or not, the
  request is handled as its payload says, and there are payloads that change the
  transaction and the balance records.
\<close>

theorem no_secret_no_check:
  "secret = None \<or> secret = Some [] \<Longrightarrow>
   callback secret now q data st = reconcile now data st
   \<and> legacy_callback secret now q data st = legacy_reconcile now data st
   \<and> (\<exists>data' st'. transactions (fst (callback secret now q data' st')) \<noteq> transactions st'
                  \<and> users (fst (callback secret now q data' st')) \<noteq> users st')
   \<and> (\<exists>data' st'. transactions (fst (legacy_callback secret now q data' st')) \<noteq> transactions st'
                  \<and> users (fst (legacy_callback secret now q data' st')) \<noteq> users st')"
proof -
  assume s: "secret = None \<or> secret = Some []"
  have eq: "callback secret now' q data' st' = reconcile now' data' st'" for now' data' st'
    using s by (auto simp: callback_def unauthorized_def)
  have leq: "legacy_callback secret now' q data' st' = legacy_reconcile now' data' st'"
    for now' data' st'
    using s by (auto simp: legacy_callback_def unauthorized_def)
  have "transactions (fst (reconcile now success_payload init_state)) \<noteq> transactions init_state
      \<and> users (fst (reconcile now success_payload init_state)) \<noteq> users init_state"
    by (simp add: init_state_def success_payload_def handler_defs js_defs store_defs)
  then have m: "\<exists>data' st'. transactions (fst (callback secret now q data' st')) \<noteq> transactions st'
                  \<and> users (fst (callback secret now q data' st')) \<noteq> users st'"
    unfolding eq by blast
  have "transactions (fst (legacy_reconcile now completed_payload init_state)) \<noteq> transactions init_state
      \<and> users (fst (legacy_reconcile now completed_payload init_state)) \<noteq> users init_state"
    by (simp add: legacy_reconcile_def init_state_def completed_payload_def handler_defs js_defs
        store_defs)
  then have l: "\<exists>data' st'. transactions (fst (legacy_callback secret now q data' st')) \<noteq> transactions st'
                  \<and> users (fst (legacy_callback secret now q data' st')) \<noteq> users st'"
    unfolding leq by blast
  from eq leq m l show ?thesis by simp
qed

theorem no_secret_no_check_witness:
  "(None = (None :: string option) \<or> None = Some [])
   \<and> callback None 5 (JStr ''anything'') success_payload init_state
       = reconcile 5 success_payload init_state
   \<and> callback (Some []) 5 JUndef success_payload init_state
       = reconcile 5 success_payload init_state
   \<and> users (fst (callback None 5 (JStr ''anything'') success_payload init_state)) \<noteq> users init_state
   \<and> legacy_callback None 5 (JStr ''anything'') completed_payload init_state
       = legacy_reconcile 5 completed_payload init_state
   \<and> users (fst (legacy_callback None 5 (JStr ''anything'') completed_payload init_state))
       \<noteq> users init_state"
  using no_secret_no_check [of None 5 "JStr ''anything''" success_payload init_state]
    no_secret_no_check [of "Some []" 5 JUndef success_payload init_state]
    no_secret_no_check [of None 5 "JStr ''anything''" completed_payload init_state]
  by (simp add: first_callback legacy_completed_payload)
    (simp add: init_state_def credited_state_def)

end
